theory Spec2Isabelle
  imports Complex_Main "HOL-Library.Char_ord" "HOL-Library.List_Lexorder"
begin

section \<open>Data model (types.ts)\<close>

text \<open>
  JavaScript numbers are modelled by \<^typ>\<open>real\<close>: arithmetic is exact, and rounding,
  NaN and the infinities of IEEE doubles are outside the model. The records the
  portfolio computation reads take their number type as a parameter, so that the same
  records also serve with a number type that has NaN and the infinities. A Firestore
  \<open>Timestamp\<close> is the pair of its public fields.
\<close>

record Timestamp =
  seconds :: int
  nanoseconds :: int

record PriceSymbol =
  ticker :: string
  name :: string
  close :: real
  changePct :: real
  volume :: real

record PriceBatch =
  batchId :: string
  createdAt :: Timestamp
  symbols :: "PriceSymbol list"

datatype TradeActionType = BUY | SELL

datatype TradeStatus = PENDING | FILLED | CANCELLED

record TradeAction =
  id' :: string
  batchId :: string
  date :: Timestamp
  ticker :: string
  action :: TradeActionType
  shares :: real
  price :: real
  stopLoss :: real
  takeProfit :: real
  rationale :: string
  status :: TradeStatus

record 'n PortfolioState =
  cash :: 'n
  equity :: 'n
  updatedAt :: Timestamp
  cashBufferPct :: 'n

record 'n PortfolioPosition =
  id' :: string
  ticker :: string
  shares :: 'n
  avgPrice :: 'n
  marketPrice :: 'n
  unrealizedPnL :: 'n

section \<open>Dashboard KPIs (App.tsx, the portfolio \<open>useMemo\<close>)\<close>

text \<open>
  \<open>x || d\<close> on numbers: the right operand is taken when the left one is falsy, which
  for a number of the model is being zero.
\<close>

definition orNum :: "real \<Rightarrow> real \<Rightarrow> real" where
  "orNum x d = (if x = 0 then d else x)"

record 'n Kpis =
  portfolioValue :: 'n
  dailyPnL :: 'n
  dailyPnLPct :: 'n





text \<open>The invested value the specification speaks of: shares times average cost, summed.\<close>

definition investedValue :: "real PortfolioPosition list \<Rightarrow> real" where
  "investedValue ps = (\<Sum>pos\<leftarrow>ps. PortfolioPosition.shares pos * avgPrice pos)"

section \<open>The percentage over JavaScript's number values\<close>

text \<open>
  A JavaScript number is a finite value, one of the two infinities or NaN; the two
  zeros are not told apart. A Firestore double can hold each of them.
\<close>

datatype JsNum = Num real | PosInfinity | NegInfinity | NaN

text \<open>Of the numbers, zero and NaN are falsy; \<open>x || d\<close> is \<open>d\<close> for a falsy \<open>x\<close>.\<close>

definition falsy :: "JsNum \<Rightarrow> bool" where
  "falsy x = (x = Num 0 \<or> x = NaN)"

definition orJs :: "JsNum \<Rightarrow> JsNum \<Rightarrow> JsNum" where
  "orJs x d = (if falsy x then d else x)"

text \<open>
  The four operators the computation uses are the engine's, with their rounding and
  overflow, and are parameters.
\<close>

record JsArith =
  numAdd :: "JsNum \<Rightarrow> JsNum \<Rightarrow> JsNum"
  numSub :: "JsNum \<Rightarrow> JsNum \<Rightarrow> JsNum"
  numMul :: "JsNum \<Rightarrow> JsNum \<Rightarrow> JsNum"
  numDiv :: "JsNum \<Rightarrow> JsNum \<Rightarrow> JsNum"

definition equityOfJs :: "JsArith \<Rightarrow> JsNum PortfolioPosition list \<Rightarrow> JsNum" where
  "equityOfJs A ps =
     foldl (\<lambda>acc pos. numAdd A acc (numMul A (PortfolioPosition.shares pos) (marketPrice pos)))
       (Num 0) ps"

definition totalPnlOfJs :: "JsArith \<Rightarrow> JsNum PortfolioPosition list \<Rightarrow> JsNum" where
  "totalPnlOfJs A ps = foldl (\<lambda>acc pos. numAdd A acc (unrealizedPnL pos)) (Num 0) ps"

definition pnlDivisorJs :: "JsArith \<Rightarrow> JsNum \<Rightarrow> JsNum \<Rightarrow> JsNum" where
  "pnlDivisorJs A pv pnl = orJs (numSub A pv pnl) (Num 1)"

definition computeKpisJs ::
  "JsArith \<Rightarrow> JsNum PortfolioState option \<Rightarrow> JsNum PortfolioPosition list \<Rightarrow> JsNum Kpis" where
  "computeKpisJs A st ps =
     (case st of
        None \<Rightarrow> \<lparr>portfolioValue = Num 0, dailyPnL = Num 0, dailyPnLPct = Num 0\<rparr>
      | Some s \<Rightarrow>
          if length ps = 0
          then \<lparr>portfolioValue = orJs (cash s) (Num 0), dailyPnL = Num 0, dailyPnLPct = Num 0\<rparr>
          else
            let eq = equityOfJs A ps;
                pv = numAdd A (cash s) eq;
                totalPnl = totalPnlOfJs A ps
            in \<lparr>portfolioValue = pv, dailyPnL = totalPnl,
                dailyPnLPct = numMul A (numDiv A totalPnl (pnlDivisorJs A pv totalPnl)) (Num 100)\<rparr>)"

text \<open>
  One arithmetic to compute with: the special values behave as IEEE 754 has them, and
  on finite values the operators are exact, without rounding or overflow.
\<close>

fun exactAdd :: "JsNum \<Rightarrow> JsNum \<Rightarrow> JsNum" where
  "exactAdd NaN y = NaN"
| "exactAdd x NaN = NaN"
| "exactAdd PosInfinity NegInfinity = NaN"
| "exactAdd NegInfinity PosInfinity = NaN"
| "exactAdd PosInfinity y = PosInfinity"
| "exactAdd NegInfinity y = NegInfinity"
| "exactAdd x PosInfinity = PosInfinity"
| "exactAdd x NegInfinity = NegInfinity"
| "exactAdd (Num a) (Num b) = Num (a + b)"

fun exactNeg :: "JsNum \<Rightarrow> JsNum" where
  "exactNeg NaN = NaN"
| "exactNeg PosInfinity = NegInfinity"
| "exactNeg NegInfinity = PosInfinity"
| "exactNeg (Num a) = Num (- a)"

definition exactSub :: "JsNum \<Rightarrow> JsNum \<Rightarrow> JsNum" where
  "exactSub x y = exactAdd x (exactNeg y)"

text \<open>The sign of a number that is not NaN; zero counts as positive.\<close>

fun negative :: "JsNum \<Rightarrow> bool" where
  "negative (Num a) = (a < 0)"
| "negative NegInfinity = True"
| "negative x = False"

definition signedInfinity :: "bool \<Rightarrow> JsNum" where
  "signedInfinity neg = (if neg then NegInfinity else PosInfinity)"

fun exactMul :: "JsNum \<Rightarrow> JsNum \<Rightarrow> JsNum" where
  "exactMul NaN y = NaN"
| "exactMul x NaN = NaN"
| "exactMul (Num a) (Num b) = Num (a * b)"
| "exactMul (Num a) y = (if a = 0 then NaN else signedInfinity (negative (Num a) \<noteq> negative y))"
| "exactMul x (Num b) = (if b = 0 then NaN else signedInfinity (negative x \<noteq> negative (Num b)))"
| "exactMul x y = signedInfinity (negative x \<noteq> negative y)"

fun exactDiv :: "JsNum \<Rightarrow> JsNum \<Rightarrow> JsNum" where
  "exactDiv NaN y = NaN"
| "exactDiv x NaN = NaN"
| "exactDiv (Num a) (Num b) =
     (if b = 0 then (if a = 0 then NaN else signedInfinity (a < 0)) else Num (a / b))"
| "exactDiv (Num a) y = Num 0"
| "exactDiv x (Num b) = signedInfinity (negative x \<noteq> negative (Num b))"
| "exactDiv x y = NaN"

definition exactArith :: JsArith where
  "exactArith = \<lparr>numAdd = exactAdd, numSub = exactSub, numMul = exactMul, numDiv = exactDiv\<rparr>"

section \<open>Chart merge (TradeVisualizer, the nested snapshot callback)\<close>

record ChartDataPoint =
  date :: string
  close :: real
  trade :: "TradeAction option"

text \<open>
  \<open>new Map(actions.map(a => [a.batchId, a]))\<close>: the entries are set in list order, so a
  later entry replaces an earlier one with the same key.
\<close>

definition actionsByBatchId :: "TradeAction list \<Rightarrow> (string \<rightharpoonup> TradeAction)" where
  "actionsByBatchId actions =
     foldl (\<lambda>m a. m(TradeAction.batchId a \<mapsto> a)) Map.empty actions"

text \<open>
  The callback given to \<open>prices.map\<close>. The label is the browser's
  \<open>toLocaleTimeString\<close> of the batch's creation time in milliseconds; it depends on
  the locale data and time zone of the browser and is a parameter here. \<open>None\<close> is
  the callback's \<open>null\<close>, and a missing key of the map gives no \<open>trade\<close>.
\<close>

definition mergePoint ::
  "(int \<Rightarrow> string) \<Rightarrow> string \<Rightarrow> (string \<rightharpoonup> TradeAction) \<Rightarrow> PriceBatch
     \<Rightarrow> ChartDataPoint option" where
  "mergePoint toLocaleTimeString selectedTicker byBatch batch =
     (case find (\<lambda>s. PriceSymbol.ticker s = selectedTicker) (symbols batch) of
        None \<Rightarrow> None
      | Some symbolData \<Rightarrow>
          Some \<lparr>date = toLocaleTimeString (seconds (createdAt batch) * 1000),
                close = PriceSymbol.close symbolData,
                trade = byBatch (PriceBatch.batchId batch)\<rparr>)"

text \<open>\<open>prices.map(...).filter(d => d !== null).reverse()\<close>.\<close>

definition mergeData ::
  "(int \<Rightarrow> string) \<Rightarrow> string \<Rightarrow> PriceBatch list \<Rightarrow> TradeAction list
     \<Rightarrow> ChartDataPoint list" where
  "mergeData toLocaleTimeString selectedTicker prices actions =
     rev (map the (filter (\<lambda>d. d \<noteq> None)
       (map (mergePoint toLocaleTimeString selectedTicker (actionsByBatchId actions)) prices)))"

text \<open>
  The order of Firestore timestamps, which \<open>orderBy('createdAt', 'desc')\<close> sorts by:
  seconds first, then nanoseconds.
\<close>

definition tsLe :: "Timestamp \<Rightarrow> Timestamp \<Rightarrow> bool" where
  "tsLe a b = (seconds a < seconds b \<or> (seconds a = seconds b \<and> nanoseconds a \<le> nanoseconds b))"

text \<open>A batch quotes a ticker when one of its symbol records carries it.\<close>

definition quotes :: "string \<Rightarrow> PriceBatch \<Rightarrow> bool" where
  "quotes t batch = (find (\<lambda>s. PriceSymbol.ticker s = t) (symbols batch) \<noteq> None)"

section \<open>Dashboard state and snapshot listeners (App.tsx)\<close>

text \<open>
  The five \<open>useState\<close> cells of \<open>App\<close>, and \<open>loadedCount\<close>, the counter local to
  its subscription effect.
\<close>

record AppState =
  portfolioState :: "real PortfolioState option"
  portfolioPositions :: "real PortfolioPosition list"
  latestBatch :: "PriceBatch option"
  tradeActions :: "TradeAction list"
  loading :: bool
  loadedCount :: nat

definition initApp :: AppState where
  "initApp = \<lparr>portfolioState = None, portfolioPositions = [], latestBatch = None,
     tradeActions = [], loading = True, loadedCount = 0\<rparr>"

text \<open>\<open>collectionsToWatch\<close> has four entries.\<close>

definition checkAllLoaded :: "AppState \<Rightarrow> AppState" where
  "checkAllLoaded s =
     (let n = loadedCount s + 1;
          s' = s\<lparr>loadedCount := n\<rparr>
      in if n \<ge> 4 then s'\<lparr>AppState.loading := False\<rparr> else s')"

text \<open>
  A document snapshot is the document's data when it exists; a query snapshot is the
  list of its documents, each given as the record the listener's \<open>docs.map\<close> builds.
\<close>

definition onPortfolioStateSnap :: "real PortfolioState option \<Rightarrow> AppState \<Rightarrow> AppState" where
  "onPortfolioStateSnap docSnap s =
     checkAllLoaded (case docSnap of
        Some d \<Rightarrow> s\<lparr>portfolioState := Some d\<rparr>
      | None \<Rightarrow> s)"

definition onPositionsSnap :: "real PortfolioPosition list \<Rightarrow> AppState \<Rightarrow> AppState" where
  "onPositionsSnap positions s = checkAllLoaded (s\<lparr>portfolioPositions := positions\<rparr>)"

text \<open>
  \<open>snapshot.docs[0].data()\<close>: an index past the end gives \<open>undefined\<close>, and calling
  \<open>data\<close> on it throws.
\<close>

datatype JsError = TypeError

definition firstDocData :: "'a list \<Rightarrow> JsError + 'a" where
  "firstDocData docs = (case docs of [] \<Rightarrow> Inl TypeError | d # _ \<Rightarrow> Inr d)"

definition onLatestBatchSnap :: "PriceBatch list \<Rightarrow> AppState \<Rightarrow> JsError + AppState" where
  "onLatestBatchSnap docs s =
     (if \<not> (docs = [])
      then (case firstDocData docs of
              Inl e \<Rightarrow> Inl e
            | Inr d \<Rightarrow> Inr (checkAllLoaded (s\<lparr>latestBatch := Some d\<rparr>)))
      else Inr (checkAllLoaded s))"

definition onActionsSnap :: "TradeAction list \<Rightarrow> AppState \<Rightarrow> AppState" where
  "onActionsSnap actions s = checkAllLoaded (s\<lparr>tradeActions := actions\<rparr>)"

subsection \<open>Derived values\<close>


definition startsWith :: "string \<Rightarrow> string \<Rightarrow> bool" where
  "startsWith t p = (take (length p) t = p)"

text \<open>The default \<open>sort()\<close> orders strings by their code units, lexicographically.\<close>

definition availableTickers :: "PriceBatch option \<Rightarrow> string list" where
  "availableTickers lb =
     (case lb of
        None \<Rightarrow> []
      | Some b \<Rightarrow>
          sort (filter (\<lambda>t. \<not> startsWith t ''EGX'') (map PriceSymbol.ticker (symbols b))))"

subsection \<open>Rendering decisions\<close>






section \<open>The chart component (TradeVisualizer)\<close>

record VisualizerState =
  selectedTicker :: string
  chartData :: "ChartDataPoint list"
  loading :: bool

definition initVisualizer :: VisualizerState where
  "initVisualizer = \<lparr>selectedTicker = '''', chartData = [], loading = False\<rparr>"

text \<open>The first effect: the first available ticker becomes the default.\<close>

definition defaultTickerEffect :: "string list \<Rightarrow> VisualizerState \<Rightarrow> VisualizerState" where
  "defaultTickerEffect tickers vs =
     (case tickers of
        t # _ \<Rightarrow> if selectedTicker vs = '''' then vs\<lparr>selectedTicker := t\<rparr> else vs
      | [] \<Rightarrow> vs)"

definition handleTickerChange :: "string \<Rightarrow> VisualizerState \<Rightarrow> VisualizerState" where
  "handleTickerChange v vs = vs\<lparr>selectedTicker := v\<rparr>"

text \<open>The inner snapshot callback: merge, \<open>setChartData\<close>, \<open>setLoading(false)\<close>.\<close>

definition onActionsSnapshot ::
  "(int \<Rightarrow> string) \<Rightarrow> string \<Rightarrow> PriceBatch list \<Rightarrow> TradeAction list
     \<Rightarrow> VisualizerState \<Rightarrow> VisualizerState" where
  "onActionsSnapshot toLocaleTimeString tk prices actions vs =
     vs\<lparr>chartData := mergeData toLocaleTimeString tk prices actions,
        VisualizerState.loading := False\<rparr>"





section \<open>Live-query subscriptions\<close>

text \<open>
  The document store as the dashboard meets it: its contents, of whatever type, and
  the listeners registered with it. A listener is the callback that was passed to
  \<open>onSnapshot\<close>, with what its closure captured: the outer chart listener the
  selected ticker, the inner one the ticker and the price batches just delivered.
\<close>

datatype Listener =
    PortfolioStateListener
  | PositionsListener
  | LatestBatchListener
  | RecentActionsListener
  | PricesListener string
  | ActionsListener string "PriceBatch list"

record 'd Firestore =
  documents :: 'd
  listeners :: "(nat \<times> Listener) list"
  nextHandle :: nat

text \<open>
  \<open>onSnapshot\<close> registers the callback and returns the handle that unsubscribes it.
  What a callback returns is discarded: the SDK's observer type is a function to
  \<open>void\<close>.
\<close>

definition onSnapshot :: "Listener \<Rightarrow> 'd Firestore \<Rightarrow> nat \<times> 'd Firestore" where
  "onSnapshot l fs =
     (nextHandle fs,
      fs\<lparr>listeners := listeners fs @ [(nextHandle fs, l)], nextHandle := nextHandle fs + 1\<rparr>)"

definition unsubscribe :: "nat \<Rightarrow> 'd Firestore \<Rightarrow> 'd Firestore" where
  "unsubscribe h fs = fs\<lparr>listeners := filter (\<lambda>e. fst e \<noteq> h) (listeners fs)\<rparr>"

subsection \<open>The subscription effect of \<open>App\<close>\<close>

definition appEffect :: "'d Firestore \<Rightarrow> nat list \<times> 'd Firestore" where
  "appEffect fs0 =
     (let (u1, fs1) = onSnapshot PortfolioStateListener fs0;
          (u2, fs2) = onSnapshot PositionsListener fs1;
          (u3, fs3) = onSnapshot LatestBatchListener fs2;
          (u4, fs4) = onSnapshot RecentActionsListener fs3
      in ([u1, u2, u3, u4], fs4))"

text \<open>\<open>unsubscribers.forEach(unsub => unsub())\<close>.\<close>

definition appCleanup :: "nat list \<Rightarrow> 'd Firestore \<Rightarrow> 'd Firestore" where
  "appCleanup unsubs fs = foldl (\<lambda>f unsub. unsubscribe unsub f) fs unsubs"

subsection \<open>The subscription effect of \<open>TradeVisualizer\<close>\<close>

text \<open>
  The effect returns its cleanup, the handle of the prices listener, or nothing when no
  ticker is selected.
\<close>

definition subscriptionEffect ::
  "VisualizerState \<Rightarrow> 'd Firestore \<Rightarrow> VisualizerState \<times> nat option \<times> 'd Firestore" where
  "subscriptionEffect vs fs =
     (if selectedTicker vs = '''' then (vs, None, fs)
      else
        let vs' = vs\<lparr>VisualizerState.loading := True\<rparr>;
            (unsubscribePrices, fs') = onSnapshot (PricesListener (selectedTicker vs)) fs
        in (vs', Some unsubscribePrices, fs'))"

definition subscriptionCleanup :: "nat option \<Rightarrow> 'd Firestore \<Rightarrow> 'd Firestore" where
  "subscriptionCleanup c fs = (case c of None \<Rightarrow> fs | Some unsubscribePrices \<Rightarrow> unsubscribe unsubscribePrices fs)"

text \<open>
  The outer callback: it subscribes to the actions query anew at every prices snapshot.
  The handle \<open>unsubscribeActions\<close> lives only in the function the callback returns,
  which nobody receives.
\<close>

definition onPricesSnapshot :: "string \<Rightarrow> PriceBatch list \<Rightarrow> 'd Firestore \<Rightarrow> 'd Firestore" where
  "onPricesSnapshot tk prices fs =
     (let (unsubscribeActions, fs') = onSnapshot (ActionsListener tk prices) fs in fs')"

subsection \<open>The running dashboard\<close>

text \<open>
  A mounted \<open>TradeVisualizer\<close>: its state, the \<open>selectedTicker\<close> the subscription
  effect last ran for, and the cleanup that run returned.
\<close>

record VisualizerInstance =
  vstate :: VisualizerState
  effectTicker :: string
  cleanupHandle :: "nat option"

text \<open>
  What React does after a render of the component: the default-ticker effect, then the
  subscription effect if \<open>selectedTicker\<close> is not the one it last ran for, its previous
  cleanup first.
\<close>

definition runEffects ::
  "string list \<Rightarrow> VisualizerInstance \<Rightarrow> 'd Firestore \<Rightarrow> VisualizerInstance \<times> 'd Firestore" where
  "runEffects tickers v fs =
     (let vs1 = defaultTickerEffect tickers (vstate v)
      in if selectedTicker vs1 = effectTicker v then (v\<lparr>vstate := vs1\<rparr>, fs)
         else
           let fs1 = subscriptionCleanup (cleanupHandle v) fs;
               (vs2, c, fs2) = subscriptionEffect vs1 fs1
           in (\<lparr>vstate = vs2, effectTicker = selectedTicker vs2, cleanupHandle = c\<rparr>, fs2))"

record 'd Dashboard =
  store :: "'d Firestore"
  app :: AppState
  unsubscribers :: "nat list"
  visualizer :: "VisualizerInstance option"

definition initDashboard :: "'d \<Rightarrow> 'd Dashboard" where
  "initDashboard docs =
     \<lparr>store = \<lparr>documents = docs, listeners = [], nextHandle = 0\<rparr>,
      app = initApp, unsubscribers = [], visualizer = None\<rparr>"

datatype Payload =
    DocSnap "real PortfolioState option"
  | PositionsSnap "real PortfolioPosition list"
  | PricesSnap "PriceBatch list"
  | ActionsSnap "TradeAction list"

text \<open>A snapshot reaches a listener: the callback of that listener runs.\<close>

fun dispatch :: "(int \<Rightarrow> string) \<Rightarrow> Listener \<Rightarrow> Payload \<Rightarrow> 'd Dashboard \<Rightarrow> 'd Dashboard" where
  "dispatch fmt PortfolioStateListener (DocSnap docSnap) d =
     d\<lparr>app := onPortfolioStateSnap docSnap (app d)\<rparr>"
| "dispatch fmt PositionsListener (PositionsSnap positions) d =
     d\<lparr>app := onPositionsSnap positions (app d)\<rparr>"
| "dispatch fmt LatestBatchListener (PricesSnap docs) d =
     (case onLatestBatchSnap docs (app d) of
        Inl e \<Rightarrow> d
      | Inr a \<Rightarrow> d\<lparr>app := a\<rparr>)"
| "dispatch fmt RecentActionsListener (ActionsSnap actions) d =
     d\<lparr>app := onActionsSnap actions (app d)\<rparr>"
| "dispatch fmt (PricesListener tk) (PricesSnap prices) d =
     d\<lparr>store := onPricesSnapshot tk prices (store d)\<rparr>"
| "dispatch fmt (ActionsListener tk prices) (ActionsSnap actions) d =
     (case visualizer d of
        None \<Rightarrow> d
      | Some v \<Rightarrow>
          d\<lparr>visualizer := Some (v\<lparr>vstate := onActionsSnapshot fmt tk prices actions (vstate v)\<rparr>)\<rparr>)"
| "dispatch fmt l p d = d"

datatype Event =
    AppMount
  | Snapshot nat Payload
  | Render
  | TickerChange string
  | AppUnmount

definition unmountVisualizer :: "'d Dashboard \<Rightarrow> 'd Dashboard" where
  "unmountVisualizer d =
     (case visualizer d of
        None \<Rightarrow> d
      | Some v \<Rightarrow> d\<lparr>store := subscriptionCleanup (cleanupHandle v) (store d), visualizer := None\<rparr>)"

fun step :: "(int \<Rightarrow> string) \<Rightarrow> Event \<Rightarrow> 'd Dashboard \<Rightarrow> 'd Dashboard" where
  "step fmt AppMount d =
     (let (unsubs, fs) = appEffect (store d) in d\<lparr>store := fs, unsubscribers := unsubs\<rparr>)"
| "step fmt (Snapshot h p) d =
     (case map_of (listeners (store d)) h of
        None \<Rightarrow> d
      | Some l \<Rightarrow> dispatch fmt l p d)"
| "step fmt Render d =
     (if AppState.loading (app d) then unmountVisualizer d
      else
        let v = (case visualizer d of
                   None \<Rightarrow> \<lparr>vstate = initVisualizer, effectTicker = '''', cleanupHandle = None\<rparr>
                 | Some v \<Rightarrow> v);
            (v', fs) = runEffects (availableTickers (latestBatch (app d))) v (store d)
        in d\<lparr>store := fs, visualizer := Some v'\<rparr>)"
| "step fmt (TickerChange t) d =
     (case visualizer d of
        None \<Rightarrow> d
      | Some v \<Rightarrow>
          let (v', fs) = runEffects (availableTickers (latestBatch (app d)))
                           (v\<lparr>vstate := handleTickerChange t (vstate v)\<rparr>) (store d)
          in d\<lparr>store := fs, visualizer := Some v'\<rparr>)"
| "step fmt AppUnmount d =
     (let d' = unmountVisualizer d
      in d'\<lparr>store := appCleanup (unsubscribers d') (store d'), unsubscribers := []\<rparr>)"

definition run :: "(int \<Rightarrow> string) \<Rightarrow> Event list \<Rightarrow> 'd Dashboard \<Rightarrow> 'd Dashboard" where
  "run fmt evs d = foldl (\<lambda>d e. step fmt e d) d evs"

section \<open>Fixture data\<close>

definition epoch :: Timestamp where
  "epoch = \<lparr>seconds = 0, nanoseconds = 0\<rparr>"

definition fixtureState :: "real \<Rightarrow> real PortfolioState" where
  "fixtureState c = \<lparr>cash = c, equity = 0, updatedAt = epoch, cashBufferPct = 0\<rparr>"


definition fixtureSymbol :: "string \<Rightarrow> real \<Rightarrow> PriceSymbol" where
  "fixtureSymbol t c = \<lparr>PriceSymbol.ticker = t, name = t, close = c, changePct = 0, volume = 0\<rparr>"

definition fixtureBatch :: "string \<Rightarrow> int \<Rightarrow> PriceSymbol list \<Rightarrow> PriceBatch" where
  "fixtureBatch b secs syms =
     \<lparr>PriceBatch.batchId = b, createdAt = \<lparr>seconds = secs, nanoseconds = 0\<rparr>, symbols = syms\<rparr>"

definition fixtureAction :: "string \<Rightarrow> string \<Rightarrow> TradeActionType \<Rightarrow> TradeAction" where
  "fixtureAction i b k =
     \<lparr>TradeAction.id' = i, batchId = b, date = epoch, ticker = ''COMI'', action = k,
      shares = 10, price = 50, stopLoss = 45, takeProfit = 60, rationale = ''signal'',
      status = FILLED\<rparr>"

definition fixtureClock :: "int \<Rightarrow> string" where
  "fixtureClock ms = (if ms < 2000 then ''10:00 AM'' else ''10:05 AM'')"

definition fixtureStateJs :: "JsNum \<Rightarrow> JsNum PortfolioState" where
  "fixtureStateJs c = \<lparr>cash = c, equity = Num 0, updatedAt = epoch, cashBufferPct = Num 0\<rparr>"

definition fixturePositionJs :: "JsNum \<Rightarrow> JsNum \<Rightarrow> JsNum \<Rightarrow> JsNum PortfolioPosition" where
  "fixturePositionJs n mkt pnl =
     \<lparr>PortfolioPosition.id' = ''COMI'', ticker = ''COMI'', shares = n, avgPrice = Num 0,
      marketPrice = mkt, unrealizedPnL = pnl\<rparr>"


definition teardownTrace :: "Event list" where
  "teardownTrace =
     [AppMount,
      Snapshot 0 (DocSnap (Some (fixtureState 100))),
      Snapshot 1 (PositionsSnap []),
      Snapshot 2 (PricesSnap [fixtureBatch ''b1'' 1 [fixtureSymbol ''COMI'' 50]]),
      Snapshot 3 (ActionsSnap []),
      Render,
      Snapshot 4 (PricesSnap [fixtureBatch ''b1'' 1 [fixtureSymbol ''COMI'' 50]]),
      AppUnmount]"

section \<open>Properties of the KPI computation\<close>




lemma orNum_zero_default [simp]: "orNum x 0 = x"
  by (simp add: orNum_def)





text \<open>
  Where the two bases agree: with no cash and every position's unrealized P/L equal to
  shares times (market price minus average cost), the value less the P/L is the invested
  value.
\<close>

lemma value_less_pnl_is_invested:
  assumes "\<forall>pos \<in> set ps. unrealizedPnL pos =
             PortfolioPosition.shares pos * (marketPrice pos - avgPrice pos)"
  shows "(\<Sum>pos\<leftarrow>ps. PortfolioPosition.shares pos * marketPrice pos)
           - (\<Sum>pos\<leftarrow>ps. unrealizedPnL pos) = investedValue ps"
  using assms by (induction ps) (simp_all add: investedValue_def algebra_simps)

subsection \<open>The divisor guard\<close>

text \<open>
  C9, as stated: the guard would make the result always a defined number. Over the
  number values of JavaScript it does not: a position whose unrealized P/L is NaN makes
  the difference NaN, the guard then divides by 1, and NaN / 1 * 100 is NaN; an infinite
  P/L gives Infinity / -Infinity, NaN again.
\<close>

theorem dailyPnLPct_nan_for_nan_pnl:
  "dailyPnLPct (computeKpisJs exactArith (Some (fixtureStateJs (Num 0)))
       [fixturePositionJs (Num 1) (Num 5) NaN]) = NaN
   \<and> pnlDivisorJs exactArith (Num 5) NaN = Num 1
   \<and> dailyPnLPct (computeKpisJs exactArith (Some (fixtureStateJs (Num 0)))
       [fixturePositionJs (Num 1) (Num 5) PosInfinity]) = NaN"
  by (simp add: computeKpisJs_def equityOfJs_def totalPnlOfJs_def pnlDivisorJs_def orJs_def
      falsy_def exactArith_def exactSub_def signedInfinity_def fixtureStateJs_def
      fixturePositionJs_def Let_def)

text \<open>
  C9, amended: the percentage never divides by zero. For every arithmetic, every
  portfolio state and every non-empty position list, the percentage is the total
  unrealized P/L divided by the divisor, times 100, where the divisor is 1 when the
  computed portfolio value minus the total unrealized P/L is zero or NaN and that
  difference otherwise, so that the divisor is neither zero nor NaN. Without a portfolio
  state or without positions the percentage is 0 and nothing is divided.
\<close>

theorem dailyPnLPct_divisor_never_zero:
  assumes "ps \<noteq> []"
  shows "dailyPnLPct (computeKpisJs A (Some s) ps) =
           numMul A
             (numDiv A (dailyPnL (computeKpisJs A (Some s) ps))
                (pnlDivisorJs A (portfolioValue (computeKpisJs A (Some s) ps))
                   (dailyPnL (computeKpisJs A (Some s) ps))))
             (Num 100)
         \<and> pnlDivisorJs A (portfolioValue (computeKpisJs A (Some s) ps))
              (dailyPnL (computeKpisJs A (Some s) ps)) \<noteq> Num 0
         \<and> pnlDivisorJs A (portfolioValue (computeKpisJs A (Some s) ps))
              (dailyPnL (computeKpisJs A (Some s) ps)) \<noteq> NaN
         \<and> (numSub A (portfolioValue (computeKpisJs A (Some s) ps))
                (dailyPnL (computeKpisJs A (Some s) ps)) = Num 0
             \<or> numSub A (portfolioValue (computeKpisJs A (Some s) ps))
                (dailyPnL (computeKpisJs A (Some s) ps)) = NaN
             \<longrightarrow> pnlDivisorJs A (portfolioValue (computeKpisJs A (Some s) ps))
                   (dailyPnL (computeKpisJs A (Some s) ps)) = Num 1)
         \<and> (numSub A (portfolioValue (computeKpisJs A (Some s) ps))
                (dailyPnL (computeKpisJs A (Some s) ps)) \<noteq> Num 0
             \<and> numSub A (portfolioValue (computeKpisJs A (Some s) ps))
                (dailyPnL (computeKpisJs A (Some s) ps)) \<noteq> NaN
             \<longrightarrow> pnlDivisorJs A (portfolioValue (computeKpisJs A (Some s) ps))
                   (dailyPnL (computeKpisJs A (Some s) ps)) =
                 numSub A (portfolioValue (computeKpisJs A (Some s) ps))
                   (dailyPnL (computeKpisJs A (Some s) ps)))
         \<and> dailyPnLPct (computeKpisJs A (Some s) []) = Num 0
         \<and> dailyPnLPct (computeKpisJs A None qs) = Num 0"
proof -
  define pv where "pv = numAdd A (cash s) (equityOfJs A ps)"
  define pnl where "pnl = totalPnlOfJs A ps"
  have k: "computeKpisJs A (Some s) ps =
      \<lparr>portfolioValue = pv, dailyPnL = pnl,
       dailyPnLPct = numMul A (numDiv A pnl (pnlDivisorJs A pv pnl)) (Num 100)\<rparr>"
    using assms by (simp add: computeKpisJs_def Let_def pv_def pnl_def)
  have guard: "pnlDivisorJs A pv pnl \<noteq> Num 0" "pnlDivisorJs A pv pnl \<noteq> NaN"
    "numSub A pv pnl = Num 0 \<or> numSub A pv pnl = NaN \<longrightarrow> pnlDivisorJs A pv pnl = Num 1"
    "numSub A pv pnl \<noteq> Num 0 \<and> numSub A pv pnl \<noteq> NaN \<longrightarrow>
       pnlDivisorJs A pv pnl = numSub A pv pnl"
    by (auto simp: pnlDivisorJs_def orJs_def falsy_def)
  have early: "dailyPnLPct (computeKpisJs A (Some s) []) = Num 0"
    "dailyPnLPct (computeKpisJs A None qs) = Num 0"
    by (simp_all add: computeKpisJs_def)
  show ?thesis
    unfolding k using guard early by simp
qed

theorem dailyPnLPct_divisor_never_zero_witness:
  "[fixturePositionJs (Num 1) (Num 5) (Num 5)] \<noteq> []
   \<and> numSub exactArith (Num 5) (Num 5) = Num 0
   \<and> pnlDivisorJs exactArith (Num 5) (Num 5) = Num 1
   \<and> dailyPnLPct (computeKpisJs exactArith (Some (fixtureStateJs (Num 0)))
       [fixturePositionJs (Num 1) (Num 5) (Num 5)]) = Num 500
   \<and> numSub exactArith (Num 112) (Num 2) = Num 110
   \<and> pnlDivisorJs exactArith (Num 112) (Num 2) = Num 110
   \<and> dailyPnLPct (computeKpisJs exactArith (Some (fixtureStateJs (Num 100)))
       [fixturePositionJs (Num 1) (Num 12) (Num 2)]) = Num (20 / 11)"
proof -
  have ne: "[fixturePositionJs (Num 1) (Num 5) (Num 5)] \<noteq> []" by simp
  have pv: "portfolioValue (computeKpisJs exactArith (Some (fixtureStateJs (Num 0)))
       [fixturePositionJs (Num 1) (Num 5) (Num 5)]) = Num 5"
    by (simp add: computeKpisJs_def equityOfJs_def exactArith_def fixtureStateJs_def
        fixturePositionJs_def Let_def)
  have pnl: "dailyPnL (computeKpisJs exactArith (Some (fixtureStateJs (Num 0)))
       [fixturePositionJs (Num 1) (Num 5) (Num 5)]) = Num 5"
    by (simp add: computeKpisJs_def totalPnlOfJs_def exactArith_def fixturePositionJs_def
        Let_def)
  have zero: "numSub exactArith (Num 5) (Num 5) = Num 0"
    by (simp add: exactArith_def exactSub_def)
  note g = dailyPnLPct_divisor_never_zero [OF ne, of exactArith "fixtureStateJs (Num 0)",
      unfolded pv pnl]
  from g zero have one: "pnlDivisorJs exactArith (Num 5) (Num 5) = Num 1"
    by blast
  from g have "dailyPnLPct (computeKpisJs exactArith (Some (fixtureStateJs (Num 0)))
       [fixturePositionJs (Num 1) (Num 5) (Num 5)]) =
     numMul exactArith (numDiv exactArith (Num 5) (pnlDivisorJs exactArith (Num 5) (Num 5)))
       (Num 100)"
    by blast
  then have pct: "dailyPnLPct (computeKpisJs exactArith (Some (fixtureStateJs (Num 0)))
       [fixturePositionJs (Num 1) (Num 5) (Num 5)]) = Num 500"
    unfolding one by (simp add: exactArith_def)
  have ne': "[fixturePositionJs (Num 1) (Num 12) (Num 2)] \<noteq> []" by simp
  have pv': "portfolioValue (computeKpisJs exactArith (Some (fixtureStateJs (Num 100)))
       [fixturePositionJs (Num 1) (Num 12) (Num 2)]) = Num 112"
    by (simp add: computeKpisJs_def equityOfJs_def exactArith_def fixtureStateJs_def
        fixturePositionJs_def Let_def)
  have pnl': "dailyPnL (computeKpisJs exactArith (Some (fixtureStateJs (Num 100)))
       [fixturePositionJs (Num 1) (Num 12) (Num 2)]) = Num 2"
    by (simp add: computeKpisJs_def totalPnlOfJs_def exactArith_def fixturePositionJs_def
        Let_def)
  have diff: "numSub exactArith (Num 112) (Num 2) = Num 110"
    by (simp add: exactArith_def exactSub_def)
  note g' = dailyPnLPct_divisor_never_zero [OF ne', of exactArith "fixtureStateJs (Num 100)",
      unfolded pv' pnl']
  from g' diff have d110: "pnlDivisorJs exactArith (Num 112) (Num 2) = Num 110"
    by simp
  from g' have "dailyPnLPct (computeKpisJs exactArith (Some (fixtureStateJs (Num 100)))
       [fixturePositionJs (Num 1) (Num 12) (Num 2)]) =
     numMul exactArith (numDiv exactArith (Num 2) (pnlDivisorJs exactArith (Num 112) (Num 2)))
       (Num 100)"
    by blast
  then have pct': "dailyPnLPct (computeKpisJs exactArith (Some (fixtureStateJs (Num 100)))
       [fixturePositionJs (Num 1) (Num 12) (Num 2)]) = Num (20 / 11)"
    unfolding d110 by (simp add: exactArith_def)
  from ne zero one pct diff d110 pct' show ?thesis by (intro conjI)
qed

section \<open>Properties of the chart merge\<close>

lemma foldl_upd_dom:
  "(foldl (\<lambda>m a. m(k a \<mapsto> a)) m xs k' = None) = (m k' = None \<and> k' \<notin> k ` set xs)"
  by (induction xs arbitrary: m) auto

lemma foldl_upd_Some:
  "foldl (\<lambda>m a. m(k a \<mapsto> a)) m xs k' = Some v \<Longrightarrow> m k' = Some v \<or> (v \<in> set xs \<and> k v = k')"
proof (induction xs arbitrary: m)
  case Nil
  then show ?case by simp
next
  case (Cons a xs)
  from Cons.prems have "foldl (\<lambda>m a. m(k a \<mapsto> a)) (m(k a \<mapsto> a)) xs k' = Some v"
    by (simp only: foldl_Cons)
  from Cons.IH [OF this] show ?case
    by (auto split: if_splits)
qed



lemma actionsByBatchId_None:
  "(actionsByBatchId actions b = None) = (b \<notin> TradeAction.batchId ` set actions)"
  by (simp add: actionsByBatchId_def foldl_upd_dom)

lemma actionsByBatchId_Some:
  "actionsByBatchId actions b = Some a \<Longrightarrow> a \<in> set actions \<and> TradeAction.batchId a = b"
  using foldl_upd_Some [of TradeAction.batchId Map.empty actions b a]
  by (simp add: actionsByBatchId_def)


lemma map_the_filter_map_filter:
  "map the (filter (\<lambda>d. d \<noteq> None) (map f xs)) = List.map_filter f xs"
  by (induction xs) (auto simp: List.map_filter_def)

lemma mergeData_map_filter:
  "mergeData fmt t prices actions =
     rev (List.map_filter (mergePoint fmt t (actionsByBatchId actions)) prices)"
  unfolding mergeData_def map_the_filter_map_filter ..

lemma mergePoint_None: "(mergePoint fmt t m b = None) = (\<not> quotes t b)"
  by (simp add: mergePoint_def quotes_def split: option.split)

lemma map_filter_list_all2:
  "list_all2 (\<lambda>x y. f x = Some y) (filter (\<lambda>x. f x \<noteq> None) xs) (List.map_filter f xs)"
  by (induction xs) (auto simp: List.map_filter_def)

lemma mergeData_list_all2:
  "list_all2 (\<lambda>b p. mergePoint fmt t (actionsByBatchId actions) b = Some p)
     (rev (filter (quotes t) prices)) (mergeData fmt t prices actions)"
proof -
  have "filter (\<lambda>b. mergePoint fmt t (actionsByBatchId actions) b \<noteq> None) prices
        = filter (quotes t) prices"
    by (simp add: mergePoint_None)
  then show ?thesis
    using map_filter_list_all2 [of "mergePoint fmt t (actionsByBatchId actions)" prices]
    by (simp add: mergeData_map_filter list_all2_rev)
qed


lemma mergePoint_SomeD:
  assumes "mergePoint fmt t m batch = Some p"
  shows "ChartDataPoint.date p = fmt (seconds (createdAt batch) * 1000)"
    and "\<exists>s. find (\<lambda>s. PriceSymbol.ticker s = t) (symbols batch) = Some s
             \<and> ChartDataPoint.close p = PriceSymbol.close s"
    and "trade p = m (PriceBatch.batchId batch)"
  using assms by (auto simp: mergePoint_def split: option.splits)

text \<open>
  C2, as stated: one chart point per batch, for every list of at most 100 batches. A
  batch that has no quote for the selected ticker makes the callback return \<open>null\<close>, and
  the filter removes it: one such batch gives an empty series.
\<close>

theorem mergeData_drops_batch_without_ticker:
  "length [fixtureBatch ''b1'' 1 [fixtureSymbol ''EGX30'' 1]] \<le> 100
   \<and> mergeData fixtureClock ''COMI'' [fixtureBatch ''b1'' 1 [fixtureSymbol ''EGX30'' 1]] [] = []
   \<and> length (mergeData fixtureClock ''COMI'' [fixtureBatch ''b1'' 1 [fixtureSymbol ''EGX30'' 1]] [])
       \<noteq> length [fixtureBatch ''b1'' 1 [fixtureSymbol ''EGX30'' 1]]"
  by (simp add: mergeData_def mergePoint_def fixtureBatch_def fixtureSymbol_def)

text \<open>
  C2, amended: for every list of price batches and every list of trade actions, the
  merge produces exactly one chart point per batch that quotes the selected ticker
  (a batch without a quote for it produces none), in reverse input order; each point
  carries the batch's time label, the close of the batch's first quote for the ticker,
  and a trade marker exactly when an action whose batchId equals the batch's exists,
  that marker being such an action.
\<close>

theorem mergeData_one_point_per_quoting_batch:
  "list_all2
     (\<lambda>batch p.
        ChartDataPoint.date p = fmt (seconds (createdAt batch) * 1000)
        \<and> (\<exists>s. find (\<lambda>s. PriceSymbol.ticker s = t) (symbols batch) = Some s
                \<and> ChartDataPoint.close p = PriceSymbol.close s)
        \<and> ((trade p \<noteq> None) =
             (\<exists>a \<in> set actions. TradeAction.batchId a = PriceBatch.batchId batch))
        \<and> (\<forall>a. trade p = Some a \<longrightarrow>
               a \<in> set actions \<and> TradeAction.batchId a = PriceBatch.batchId batch))
     (rev (filter (quotes t) prices)) (mergeData fmt t prices actions)"
proof (rule list_all2_mono [OF mergeData_list_all2])
  fix batch p
  assume mp: "mergePoint fmt t (actionsByBatchId actions) batch = Some p"
  have tr: "trade p = actionsByBatchId actions (PriceBatch.batchId batch)"
    by (rule mergePoint_SomeD(3) [OF mp])
  have marker: "(trade p \<noteq> None) =
      (\<exists>a \<in> set actions. TradeAction.batchId a = PriceBatch.batchId batch)"
    unfolding tr actionsByBatchId_None by force
  have carried: "\<forall>a. trade p = Some a \<longrightarrow>
      a \<in> set actions \<and> TradeAction.batchId a = PriceBatch.batchId batch"
    unfolding tr using actionsByBatchId_Some by blast
  show "ChartDataPoint.date p = fmt (seconds (createdAt batch) * 1000)
        \<and> (\<exists>s. find (\<lambda>s. PriceSymbol.ticker s = t) (symbols batch) = Some s
                \<and> ChartDataPoint.close p = PriceSymbol.close s)
        \<and> ((trade p \<noteq> None) =
             (\<exists>a \<in> set actions. TradeAction.batchId a = PriceBatch.batchId batch))
        \<and> (\<forall>a. trade p = Some a \<longrightarrow>
               a \<in> set actions \<and> TradeAction.batchId a = PriceBatch.batchId batch)"
    using mergePoint_SomeD(1,2) [OF mp] marker carried by blast
qed

theorem mergeData_one_point_per_quoting_batch_witness:
  "length (mergeData fixtureClock ''COMI''
     [fixtureBatch ''b3'' 3 [fixtureSymbol ''EGX30'' 1, fixtureSymbol ''COMI'' 52],
      fixtureBatch ''b2'' 2 [fixtureSymbol ''EGX30'' 1],
      fixtureBatch ''b1'' 1 [fixtureSymbol ''COMI'' 50]]
     [fixtureAction ''a1'' ''b1'' BUY]) = 2"
proof -
  have "length (mergeData fixtureClock ''COMI''
     [fixtureBatch ''b3'' 3 [fixtureSymbol ''EGX30'' 1, fixtureSymbol ''COMI'' 52],
      fixtureBatch ''b2'' 2 [fixtureSymbol ''EGX30'' 1],
      fixtureBatch ''b1'' 1 [fixtureSymbol ''COMI'' 50]]
     [fixtureAction ''a1'' ''b1'' BUY])
    = length (rev (filter (quotes ''COMI'')
     [fixtureBatch ''b3'' 3 [fixtureSymbol ''EGX30'' 1, fixtureSymbol ''COMI'' 52],
      fixtureBatch ''b2'' 2 [fixtureSymbol ''EGX30'' 1],
      fixtureBatch ''b1'' 1 [fixtureSymbol ''COMI'' 50]]))"
    by (rule list_all2_lengthD [OF mergeData_one_point_per_quoting_batch, symmetric])
  then show ?thesis
    by (simp add: quotes_def fixtureBatch_def fixtureSymbol_def)
qed

text \<open>
  C4. For every input list of price batches ordered newest-to-oldest by creation time,
  the merge output is the reversal of the order-preserving mapping of the input (the
  batches without the ticker left out), so its points stand for batches in
  oldest-to-newest order.
\<close>

theorem mergeData_oldest_to_newest:
  assumes "sorted_wrt (\<lambda>a b. tsLe (createdAt b) (createdAt a)) prices"
  shows "mergeData fmt t prices actions =
           rev (List.map_filter (mergePoint fmt t (actionsByBatchId actions)) prices)
         \<and> list_all2 (\<lambda>batch p. mergePoint fmt t (actionsByBatchId actions) batch = Some p)
             (rev (filter (quotes t) prices)) (mergeData fmt t prices actions)
         \<and> sorted_wrt (\<lambda>a b. tsLe (createdAt a) (createdAt b)) (rev (filter (quotes t) prices))"
proof -
  have "sorted_wrt (\<lambda>a b. tsLe (createdAt b) (createdAt a)) (filter (quotes t) prices)"
    using assms by (rule sorted_wrt_filter)
  then have "sorted_wrt (\<lambda>a b. tsLe (createdAt a) (createdAt b)) (rev (filter (quotes t) prices))"
    by (simp add: sorted_wrt_rev)
  then show ?thesis
    using mergeData_map_filter mergeData_list_all2 by blast
qed

theorem mergeData_oldest_to_newest_witness:
  "sorted_wrt (\<lambda>a b. tsLe (createdAt b) (createdAt a))
     [fixtureBatch ''b3'' 3 [fixtureSymbol ''COMI'' 52],
      fixtureBatch ''b2'' 2 [fixtureSymbol ''EGX30'' 1],
      fixtureBatch ''b1'' 1 [fixtureSymbol ''COMI'' 50]]
   \<and> map ChartDataPoint.date (mergeData fixtureClock ''COMI''
     [fixtureBatch ''b3'' 3 [fixtureSymbol ''COMI'' 52],
      fixtureBatch ''b2'' 2 [fixtureSymbol ''EGX30'' 1],
      fixtureBatch ''b1'' 1 [fixtureSymbol ''COMI'' 50]] []) = [''10:00 AM'', ''10:05 AM'']
   \<and> map ChartDataPoint.close (mergeData fixtureClock ''COMI''
     [fixtureBatch ''b3'' 3 [fixtureSymbol ''COMI'' 52],
      fixtureBatch ''b2'' 2 [fixtureSymbol ''EGX30'' 1],
      fixtureBatch ''b1'' 1 [fixtureSymbol ''COMI'' 50]] []) = [50, 52]"
proof -
  have desc: "sorted_wrt (\<lambda>a b. tsLe (createdAt b) (createdAt a))
     [fixtureBatch ''b3'' 3 [fixtureSymbol ''COMI'' 52],
      fixtureBatch ''b2'' 2 [fixtureSymbol ''EGX30'' 1],
      fixtureBatch ''b1'' 1 [fixtureSymbol ''COMI'' 50]]"
    by (simp add: tsLe_def fixtureBatch_def)
  have "mergeData fixtureClock ''COMI''
     [fixtureBatch ''b3'' 3 [fixtureSymbol ''COMI'' 52],
      fixtureBatch ''b2'' 2 [fixtureSymbol ''EGX30'' 1],
      fixtureBatch ''b1'' 1 [fixtureSymbol ''COMI'' 50]] [] =
    rev (List.map_filter (mergePoint fixtureClock ''COMI'' (actionsByBatchId []))
     [fixtureBatch ''b3'' 3 [fixtureSymbol ''COMI'' 52],
      fixtureBatch ''b2'' 2 [fixtureSymbol ''EGX30'' 1],
      fixtureBatch ''b1'' 1 [fixtureSymbol ''COMI'' 50]])"
    using mergeData_oldest_to_newest [OF desc] by blast
  then show ?thesis
    using desc
    by (simp add: List.map_filter_def mergePoint_def fixtureBatch_def fixtureSymbol_def
        fixtureClock_def)
qed



section \<open>Properties of the snapshot listeners\<close>

lemma checkAllLoaded_keeps [simp]:
  "portfolioState (checkAllLoaded s) = portfolioState s"
  "portfolioPositions (checkAllLoaded s) = portfolioPositions s"
  "latestBatch (checkAllLoaded s) = latestBatch s"
  "tradeActions (checkAllLoaded s) = tradeActions s"
  by (simp_all add: checkAllLoaded_def Let_def)

lemma onLatestBatchSnap_returns:
  "onLatestBatchSnap docs s =
     Inr (checkAllLoaded (case docs of [] \<Rightarrow> s | d # _ \<Rightarrow> s\<lparr>latestBatch := Some d\<rparr>))"
  by (cases docs) (simp_all add: onLatestBatchSnap_def firstDocData_def)

text \<open>
  C5, as stated: after a snapshot in which the portfolio state document no longer
  exists, or the prices query is empty, the dashboard would no longer hold the record.
  The listeners update the state only under \<open>docSnap.exists()\<close> and
  \<open>!snapshot.empty\<close>: a record once received stays.
\<close>

theorem absent_snapshot_keeps_stale_record:
  "portfolioState (onPortfolioStateSnap (Some (fixtureState 100)) initApp)
     = Some (fixtureState 100)
   \<and> portfolioState
       (onPortfolioStateSnap None (onPortfolioStateSnap (Some (fixtureState 100)) initApp))
     = Some (fixtureState 100)
   \<and> onLatestBatchSnap [fixtureBatch ''b1'' 1 []] initApp
     = Inr (checkAllLoaded (initApp\<lparr>latestBatch := Some (fixtureBatch ''b1'' 1 [])\<rparr>))
   \<and> onLatestBatchSnap []
       (checkAllLoaded (initApp\<lparr>latestBatch := Some (fixtureBatch ''b1'' 1 [])\<rparr>))
     = Inr (checkAllLoaded
         (checkAllLoaded (initApp\<lparr>latestBatch := Some (fixtureBatch ''b1'' 1 [])\<rparr>)))
   \<and> latestBatch (checkAllLoaded
         (checkAllLoaded (initApp\<lparr>latestBatch := Some (fixtureBatch ''b1'' 1 [])\<rparr>)))
     = Some (fixtureBatch ''b1'' 1 [])"
  by (simp add: onPortfolioStateSnap_def onLatestBatchSnap_returns)

text \<open>
  C5, amended: a snapshot in which the portfolio state document does not exist, or the
  prices query result is empty, leaves the portfolio state record, respectively the
  latest price batch, of the dashboard as it was. The position list and the action list
  are replaced by the documents of each snapshot, so a record absent from such a
  snapshot is absent from the dashboard.
\<close>

theorem absent_snapshot_state_kept:
  "portfolioState (onPortfolioStateSnap None s) = portfolioState s
   \<and> onLatestBatchSnap [] s = Inr (checkAllLoaded s)
   \<and> latestBatch (checkAllLoaded s) = latestBatch s
   \<and> portfolioPositions (onPositionsSnap positions s) = positions
   \<and> tradeActions (onActionsSnap actions s) = actions"
  by (simp add: onPortfolioStateSnap_def onLatestBatchSnap_returns onPositionsSnap_def
      onActionsSnap_def)

section \<open>Properties of the subscriptions\<close>

lemma onSnapshot_documents [simp]: "documents (snd (onSnapshot l fs)) = documents fs"
  by (simp add: onSnapshot_def)

lemma unsubscribe_documents [simp]: "documents (unsubscribe h fs) = documents fs"
  by (simp add: unsubscribe_def)

lemma appEffect_documents [simp]: "documents (snd (appEffect fs)) = documents fs"
  by (simp add: appEffect_def onSnapshot_def)

lemma appCleanup_documents [simp]: "documents (appCleanup unsubs fs) = documents fs"
  unfolding appCleanup_def by (induction unsubs arbitrary: fs) simp_all

lemma subscriptionEffect_documents [simp]:
  "documents (snd (snd (subscriptionEffect vs fs))) = documents fs"
  by (simp add: subscriptionEffect_def onSnapshot_def)

lemma subscriptionCleanup_documents [simp]:
  "documents (subscriptionCleanup c fs) = documents fs"
  by (simp add: subscriptionCleanup_def split: option.split)

lemma onPricesSnapshot_documents [simp]:
  "documents (onPricesSnapshot tk prices fs) = documents fs"
  by (simp add: onPricesSnapshot_def onSnapshot_def)

lemma runEffects_documents [simp]:
  "documents (snd (runEffects tickers v fs)) = documents fs"
proof -
  have "documents (snd (snd (subscriptionEffect vs (subscriptionCleanup c fs)))) = documents fs"
    for vs c
    by simp
  then show ?thesis
    by (simp add: runEffects_def Let_def split_beta)
qed

lemma unmountVisualizer_documents [simp]:
  "documents (store (unmountVisualizer d)) = documents (store d)"
  by (simp add: unmountVisualizer_def split: option.split)

lemma dispatch_documents [simp]:
  "documents (store (dispatch fmt l p d)) = documents (store d)"
  by (cases "(fmt, l, p, d)" rule: dispatch.cases) (simp_all split: sum.split option.split)

lemma step_documents: "documents (store (step fmt e d)) = documents (store d)"
  by (cases e) (simp_all add: split_beta Let_def split: option.split)

text \<open>
  C7. For every sequence of lifecycle events and delivered snapshots, the contents of
  the document store are what they were: the dashboard only subscribes and
  unsubscribes.
\<close>

theorem dashboard_never_writes:
  "documents (store (run fmt evs d)) = documents (store d)"
  unfolding run_def by (induction evs arbitrary: d) (simp_all add: step_documents)

lemma filter_fresh_handle:
  "\<forall>e \<in> set xs. fst e < h \<Longrightarrow> filter (\<lambda>e. fst e \<noteq> (h::nat)) xs = xs"
  by (induction xs) auto

lemma filter_fresh_handle2:
  "\<forall>e \<in> set xs. fst e < h \<Longrightarrow> h \<le> k \<Longrightarrow> filter (\<lambda>e. fst e \<noteq> (k::nat)) xs = xs"
  by (induction xs) auto

lemma appCleanup_appEffect:
  assumes "\<forall>e \<in> set (listeners fs). fst e < nextHandle fs"
  shows "listeners (appCleanup (fst (appEffect fs)) (snd (appEffect fs))) = listeners fs"
  using assms
  by (simp add: appCleanup_def appEffect_def onSnapshot_def unsubscribe_def
      filter_fresh_handle2)

text \<open>
  C6. On teardown every subscription the views created would be unsubscribed. \<open>App\<close>
  does unsubscribe its four listeners (\<open>appCleanup_appEffect\<close>). The chart component
  subscribes to the actions query inside the prices callback and returns the cleanup
  from that callback, where nothing calls it: after mounting, one prices snapshot and
  the teardown, the actions listener is still registered.
\<close>

theorem nested_actions_listener_survives_teardown:
  "listeners (store (run fixtureClock teardownTrace (initDashboard ())))
     = [(5, ActionsListener ''COMI'' [fixtureBatch ''b1'' 1 [fixtureSymbol ''COMI'' 50]])]
   \<and> visualizer (run fixtureClock teardownTrace (initDashboard ())) = None
   \<and> unsubscribers (run fixtureClock teardownTrace (initDashboard ())) = []"
  by (simp add: run_def teardownTrace_def initDashboard_def
      appEffect_def onSnapshot_def initApp_def onPortfolioStateSnap_def checkAllLoaded_def
      onPositionsSnap_def onLatestBatchSnap_returns onActionsSnap_def Let_def
      availableTickers_def startsWith_def fixtureBatch_def fixtureSymbol_def runEffects_def
      defaultTickerEffect_def initVisualizer_def subscriptionCleanup_def
      subscriptionEffect_def onPricesSnapshot_def unmountVisualizer_def appCleanup_def
      unsubscribe_def)

section \<open>Properties of the empty states\<close>











end
